theory Spec2Isabelle
  imports Main "HOL-Library.Word" "HOL-Library.Multiset"
begin

section \<open>Data model\<close>

text \<open>
  A \<open>uuid.UUID\<close> is a 16-byte array compared with \<open>==\<close>; an \<open>int64\<close> opcode and a
  \<open>[]byte\<close> payload are carried through unchanged.
\<close>

type_synonym uuid = "128 word"
type_synonym int64 = "64 word"
type_synonym bytes = "8 word list"

text \<open>
  The UUID package is an external library: its parser \<open>uuid.FromString\<close> (\<open>None\<close> is the
  returned error) and its printer \<open>UUID.String\<close> are taken as parameters of the model.
\<close>

record uuid_pkg =
  uuid_FromString :: "string \<Rightarrow> uuid option"
  uuid_String :: "uuid \<Rightarrow> string"

text \<open>
  The declarations of the presence types are not part of the sources at hand; the records
  carry the fields that \<open>pipeline_match.go\<close> and \<open>match_registry.go\<close> read and write.
  Only the two match stream modes are used, and only their being different matters.
\<close>

datatype StreamMode = StreamModeMatchRelayed | StreamModeMatchAuthoritative

type_synonym SessionFormat = "8 word"

record PresenceID =
  Node :: string
  SessionID :: uuid

record PresenceStream =
  Mode :: StreamMode
  Subject :: uuid
  Label :: string

record PresenceMeta =
  Format :: SessionFormat
  Username :: string

record Presence =
  ID :: PresenceID
  Stream :: PresenceStream
  UserID :: uuid
  Meta :: PresenceMeta

text \<open>\<open>type matchDataFilter struct { userID, sessionID uuid.UUID }\<close>\<close>

record matchDataFilter =
  f_userID :: uuid
  f_sessionID :: uuid

text \<open>The \<open>session\<close> interface, as far as the match handlers read it.\<close>

record session =
  session_ID :: uuid
  session_UserID :: uuid
  session_Username :: string
  session_Format :: SessionFormat

subsection \<open>Realtime envelopes\<close>

text \<open>
  The generated \<open>rtapi\<close> package: an envelope has a correlation id and a one-of message.
  A getter \<open>GetX\<close> of the envelope returns the message when the one-of holds an \<open>X\<close> and
  \<open>nil\<close> otherwise.
\<close>

record StreamPresence =
  sp_UserId :: string
  sp_SessionId :: string
  sp_Username :: string

datatype Error_Code = Error_BAD_INPUT | Error_MATCH_NOT_FOUND | Error_MATCH_JOIN_REJECTED

datatype MatchJoin_Id = MatchJoin_MatchId string | MatchJoin_Token string | MatchJoin_Id_nil

record MatchDataSend =
  mds_MatchId :: string
  mds_OpCode :: int64
  mds_Data :: bytes
  mds_Presences :: "StreamPresence list"

record Match =
  m_MatchId :: string
  m_Presences :: "StreamPresence list"
  m_Self :: StreamPresence

record MatchData =
  md_MatchId :: string
  md_Presence :: StreamPresence
  md_OpCode :: int64
  md_Data :: bytes

datatype Message =
    Envelope_Error Error_Code string
  | Envelope_Match Match
  | Envelope_MatchCreate
  | Envelope_MatchJoin MatchJoin_Id
  | Envelope_MatchLeave string
  | Envelope_MatchDataSend MatchDataSend
  | Envelope_MatchData MatchData
  | Envelope_nil

record Envelope =
  Cid :: string
  Message :: Message

fun GetMatchJoin :: "Envelope \<Rightarrow> MatchJoin_Id option" where
  "GetMatchJoin e = (case Message e of Envelope_MatchJoin j \<Rightarrow> Some j | _ \<Rightarrow> None)"

fun GetMatchLeave :: "Envelope \<Rightarrow> string option" where
  "GetMatchLeave e = (case Message e of Envelope_MatchLeave i \<Rightarrow> Some i | _ \<Rightarrow> None)"

fun GetMatchDataSend :: "Envelope \<Rightarrow> MatchDataSend option" where
  "GetMatchDataSend e = (case Message e of Envelope_MatchDataSend d \<Rightarrow> Some d | _ \<Rightarrow> None)"

subsection \<open>Match actors and their mailbox\<close>

record MatchDataMessage =
  mdm_UserID :: uuid
  mdm_SessionID :: uuid
  mdm_Username :: string
  mdm_Node :: string
  mdm_OpCode :: int64
  mdm_Data :: bytes

text \<open>
  The messages a producer enqueues: \<open>JoinAttempt(resultCh, userID, sessionID, username,
  fromNode)\<close>, \<open>Leave(presences)\<close> and a data message. The reply channel of a join
  attempt is created by the call that enqueues it and is read by that call alone.
\<close>

datatype mailbox_message =
    JoinAttempt uuid uuid string string
  | LeaveCall "Presence list"
  | DataMessage MatchDataMessage

record MatchHandler =
  mailbox :: "mailbox_message list"
  capacity :: nat
  closed :: bool

text \<open>
  Modelled from the spec: \<open>MatchHandler.QueueCall\<close> and \<open>MatchHandler.QueueData\<close> live in
  \<open>match_handler.go\<close>, which is not among the sources. The spec gives the actor a bounded
  FIFO mailbox with a non-blocking enqueue: the message is appended when there is room,
  and a full mailbox (or a closed actor) makes the enqueue fail at once. \<open>None\<close> is the
  failed enqueue (\<open>QueueCall\<close> returning false).
\<close>

definition enqueue :: "MatchHandler \<Rightarrow> mailbox_message \<Rightarrow> MatchHandler option" where
  "enqueue mh msg =
     (if closed mh \<or> capacity mh \<le> length (mailbox mh) then None
      else Some (mh\<lparr>mailbox := mailbox mh @ [msg]\<rparr>))"

definition QueueCall :: "MatchHandler \<Rightarrow> mailbox_message \<Rightarrow> MatchHandler option" where
  "QueueCall mh call = enqueue mh call"

definition QueueData :: "MatchHandler \<Rightarrow> MatchDataMessage \<Rightarrow> MatchHandler option" where
  "QueueData mh d = enqueue mh (DataMessage d)"

subsection \<open>The presence tracker\<close>

text \<open>
  Modelled from the spec: the \<open>Tracker\<close> implementation is not among the sources. The spec
  lists its interface: \<open>track(session, stream, user, meta)\<close>, \<open>untrack(session, stream,
  user)\<close>, \<open>untrackByStream(stream)\<close>, \<open>listByStream(stream)\<close>, \<open>streamExists(stream)\<close>
  (the stream has at least one tracked presence) and the local lookup, which returns the
  meta of the presence of that session and user on the stream, or nothing. A tracker is
  the name of its node and the presences it holds, on every stream and from every node.
\<close>

record Tracker =
  t_name :: string
  t_presences :: "Presence list"

definition is_local :: "Tracker \<Rightarrow> uuid \<Rightarrow> PresenceStream \<Rightarrow> uuid \<Rightarrow> Presence \<Rightarrow> bool" where
  "is_local t sid stream uid p \<longleftrightarrow>
     ID p = \<lparr>Node = t_name t, SessionID = sid\<rparr> \<and> Stream p = stream \<and> UserID p = uid"

definition ListByStream :: "Tracker \<Rightarrow> PresenceStream \<Rightarrow> Presence list" where
  "ListByStream t stream = filter (\<lambda>p. Stream p = stream) (t_presences t)"

definition StreamExists :: "Tracker \<Rightarrow> PresenceStream \<Rightarrow> bool" where
  "StreamExists t stream \<longleftrightarrow> ListByStream t stream \<noteq> []"

definition GetLocalBySessionIDStreamUserID ::
    "Tracker \<Rightarrow> uuid \<Rightarrow> PresenceStream \<Rightarrow> uuid \<Rightarrow> PresenceMeta option" where
  "GetLocalBySessionIDStreamUserID t sid stream uid =
     map_option Meta (find (is_local t sid stream uid) (t_presences t))"

definition Track :: "Tracker \<Rightarrow> uuid \<Rightarrow> PresenceStream \<Rightarrow> uuid \<Rightarrow> PresenceMeta \<Rightarrow> Tracker" where
  "Track t sid stream uid meta =
     (if \<exists>p \<in> set (t_presences t). is_local t sid stream uid p then t
      else t\<lparr>t_presences := t_presences t @
             [\<lparr>ID = \<lparr>Node = t_name t, SessionID = sid\<rparr>, Stream = stream,
               UserID = uid, Meta = meta\<rparr>]\<rparr>)"

definition Untrack :: "Tracker \<Rightarrow> uuid \<Rightarrow> PresenceStream \<Rightarrow> uuid \<Rightarrow> Tracker" where
  "Untrack t sid stream uid =
     t\<lparr>t_presences := filter (\<lambda>p. \<not> is_local t sid stream uid p) (t_presences t)\<rparr>"

definition UntrackByStream :: "Tracker \<Rightarrow> PresenceStream \<Rightarrow> Tracker" where
  "UntrackByStream t stream =
     t\<lparr>t_presences := filter (\<lambda>p. Stream p \<noteq> stream) (t_presences t)\<rparr>"

section \<open>Go helpers\<close>

text \<open>\<open>strings.SplitN(s, ":", 2)\<close>: the string itself when it has no colon, and otherwise
  the part before the first colon and the whole rest after it.\<close>

fun cut_colon :: "string \<Rightarrow> (string \<times> string) option" where
  "cut_colon [] = None"
| "cut_colon (c # cs) =
     (if c = CHR '':'' then Some ([], cs)
      else (case cut_colon cs of None \<Rightarrow> None | Some (a, b) \<Rightarrow> Some (c # a, b)))"

definition SplitN_colon_2 :: "string \<Rightarrow> string list" where
  "SplitN_colon_2 s = (case cut_colon s of None \<Rightarrow> [s] | Some (a, b) \<Rightarrow> [a, b])"

text \<open>The in-place removal \<open>xs[i] = xs[len(xs)-1]; xs = xs[:len(xs)-1]\<close>, for \<open>i < len(xs)\<close>.\<close>

definition swap_remove :: "'a list \<Rightarrow> nat \<Rightarrow> 'a list" where
  "swap_remove xs i = butlast (xs[i := last xs])"

text \<open>A nil pointer dereference panics; it is the only panic of the handlers.\<close>

datatype panic = nil_pointer_dereference

section \<open>State and effects\<close>

text \<open>
  The handlers and the registry act on the tracker, on the registry's directory of match
  actors, on the sending session and on the router. The state holds the tracker and the
  directory; every call made to a collaborator, every access to the directory and every
  envelope sent or routed is appended to the trace, in the order of the source.
\<close>

datatype event =
    Send Envelope
  | SendToPresences "Presence list" Envelope
  | Tracker_Track uuid PresenceStream uuid PresenceMeta
  | Tracker_Untrack uuid PresenceStream uuid
  | Tracker_UntrackByStream PresenceStream
  | Tracker_ListByStream PresenceStream
  | Tracker_StreamExists PresenceStream
  | Tracker_GetLocalBySessionIDStreamUserID uuid PresenceStream uuid
  | Registry_Join uuid string uuid uuid string string
  | Registry_SendData uuid string uuid uuid string string int64 bytes
  | Matches_read uuid
  | Matches_delete uuid
  | Queued uuid mailbox_message
  | NewTicker nat

record state =
  p_node :: string
  r_node :: string
  tracker :: Tracker
  matches :: "uuid \<rightharpoonup> MatchHandler"
  trace :: "event list"

text \<open>The mailbox of the actor registered under an identifier, if there is one.\<close>

definition mailbox_of :: "uuid \<Rightarrow> state \<Rightarrow> mailbox_message list option" where
  "mailbox_of mid st = map_option mailbox (matches st mid)"

definition emit :: "event \<Rightarrow> state \<Rightarrow> state" where
  "emit e st = st\<lparr>trace := trace st @ [e]\<rparr>"

definition session_Send :: "Envelope \<Rightarrow> state \<Rightarrow> state" where
  "session_Send e st = emit (Send e) st"

definition tracker_Track ::
    "uuid \<Rightarrow> PresenceStream \<Rightarrow> uuid \<Rightarrow> PresenceMeta \<Rightarrow> state \<Rightarrow> state" where
  "tracker_Track sid stream uid meta st =
     emit (Tracker_Track sid stream uid meta)
       (st\<lparr>tracker := Track (tracker st) sid stream uid meta\<rparr>)"

definition tracker_Untrack :: "uuid \<Rightarrow> PresenceStream \<Rightarrow> uuid \<Rightarrow> state \<Rightarrow> state" where
  "tracker_Untrack sid stream uid st =
     emit (Tracker_Untrack sid stream uid)
       (st\<lparr>tracker := Untrack (tracker st) sid stream uid\<rparr>)"

definition tracker_UntrackByStream :: "PresenceStream \<Rightarrow> state \<Rightarrow> state" where
  "tracker_UntrackByStream stream st =
     emit (Tracker_UntrackByStream stream)
       (st\<lparr>tracker := UntrackByStream (tracker st) stream\<rparr>)"

section \<open>The match registry (match_registry.go)\<close>

text \<open>The parameter \<open>id\<close> of the registry's methods is written \<open>mid\<close>.\<close>

definition RemoveMatch :: "uuid \<Rightarrow> PresenceStream \<Rightarrow> state \<Rightarrow> state" where
  "RemoveMatch mid stream st =
     tracker_UntrackByStream stream
       (emit (Matches_delete mid) (st\<lparr>matches := (matches st)(mid := None)\<rparr>))"

text \<open>
  \<open>Join\<close> ends in a \<open>select\<close> over a ticker of \<open>time.Second * 10\<close> and the reply channel.
  The actor runs concurrently: what it does is an input of the model. \<open>reply = Some (t, r)\<close>
  says that the actor sends \<open>r\<close> on the reply channel \<open>t\<close> nanoseconds after the ticker
  was started, \<open>None\<close> that it never does. The \<open>select\<close> takes the case that becomes
  ready first, and when both become ready at the same instant Go chooses one of them:
  \<open>pick\<close> is that choice.
\<close>

definition time_Second :: nat where
  "time_Second = 1000000000"

datatype select_case = case_ticker | case_resultCh bool

definition select_ticker_resultCh :: "nat \<Rightarrow> (nat \<times> bool) option \<Rightarrow> bool \<Rightarrow> select_case" where
  "select_ticker_resultCh d reply pick =
     (case reply of
        None \<Rightarrow> case_ticker
      | Some (t, r) \<Rightarrow>
          if t < d then case_resultCh r
          else if d < t then case_ticker
          else if pick then case_resultCh r else case_ticker)"

definition Join ::
    "uuid \<Rightarrow> string \<Rightarrow> uuid \<Rightarrow> uuid \<Rightarrow> string \<Rightarrow> string \<Rightarrow> (nat \<times> bool) option \<Rightarrow> bool \<Rightarrow>
     state \<Rightarrow> (bool \<times> bool) \<times> state" where
  "Join mid node userID sessionID username fromNode reply pick st =
     (if node \<noteq> r_node st then ((False, False), st)
      else
        (let st1 = emit (Matches_read mid) st in
         case matches st1 mid of
           None \<Rightarrow> ((False, False), st1)
         | Some mh \<Rightarrow>
             (let call = JoinAttempt userID sessionID username fromNode in
              case QueueCall mh call of
                None \<Rightarrow> ((True, False), st1)
              | Some mh' \<Rightarrow>
                  (let st2 = emit (Queued mid call) (st1\<lparr>matches := (matches st1)(mid \<mapsto> mh')\<rparr>);
                       st3 = emit (NewTicker (time_Second * 10)) st2
                   in case select_ticker_resultCh (time_Second * 10) reply pick of
                        case_ticker \<Rightarrow> ((True, False), st3)
                      | case_resultCh r \<Rightarrow> ((True, r), st3)))))"

definition Leave :: "uuid \<Rightarrow> string \<Rightarrow> Presence list \<Rightarrow> state \<Rightarrow> state" where
  "Leave mid node presences st =
     (if node \<noteq> r_node st then st
      else
        (let st1 = emit (Matches_read mid) st in
         case matches st1 mid of
           None \<Rightarrow> st1
         | Some mh \<Rightarrow>
             (case QueueCall mh (LeaveCall presences) of
                None \<Rightarrow> st1
              | Some mh' \<Rightarrow>
                  emit (Queued mid (LeaveCall presences))
                    (st1\<lparr>matches := (matches st1)(mid \<mapsto> mh')\<rparr>))))"

definition SendData ::
    "uuid \<Rightarrow> string \<Rightarrow> uuid \<Rightarrow> uuid \<Rightarrow> string \<Rightarrow> string \<Rightarrow> int64 \<Rightarrow> bytes \<Rightarrow> state \<Rightarrow> state" where
  "SendData mid node userID sessionID username fromNode opCode data st =
     (if node \<noteq> r_node st then st
      else
        (let st1 = emit (Matches_read mid) st in
         case matches st1 mid of
           None \<Rightarrow> st1
         | Some mh \<Rightarrow>
             (let msg = \<lparr>mdm_UserID = userID, mdm_SessionID = sessionID,
                         mdm_Username = username, mdm_Node = node,
                         mdm_OpCode = opCode, mdm_Data = data\<rparr>
              in case QueueData mh msg of
                   None \<Rightarrow> st1
                 | Some mh' \<Rightarrow>
                     emit (Queued mid (DataMessage msg))
                       (st1\<lparr>matches := (matches st1)(mid \<mapsto> mh')\<rparr>))))"

section \<open>The match handlers of the pipeline (pipeline_match.go)\<close>

definition bad_input :: "string \<Rightarrow> string \<Rightarrow> Envelope" where
  "bad_input cid msg = \<lparr>Cid = cid, Message = Envelope_Error Error_BAD_INPUT msg\<rparr>"

subsection \<open>matchCreate\<close>

text \<open>\<open>matchID\<close> is the value that \<open>uuid.NewV4()\<close> returns.\<close>

definition matchCreate :: "uuid_pkg \<Rightarrow> session \<Rightarrow> Envelope \<Rightarrow> uuid \<Rightarrow> state \<Rightarrow> state" where
  "matchCreate U session envelope matchID st =
     (let username = session_Username session;
          st1 = tracker_Track (session_ID session)
                  \<lparr>Mode = StreamModeMatchRelayed, Subject = matchID, Label = []\<rparr>
                  (session_UserID session)
                  \<lparr>Format = session_Format session, Username = username\<rparr> st;
          self = \<lparr>sp_UserId = uuid_String U (session_UserID session),
                  sp_SessionId = uuid_String U (session_ID session),
                  sp_Username = username\<rparr>
      in session_Send
           \<lparr>Cid = Cid envelope,
            Message = Envelope_Match
              \<lparr>m_MatchId = uuid_String U matchID @ '':'',
               m_Presences = [self], m_Self = self\<rparr>\<rparr> st1)"

subsection \<open>matchJoin\<close>

text \<open>Lines 157 to 161: a presence of the stream as the reply lists it.\<close>

definition render :: "uuid_pkg \<Rightarrow> Presence \<Rightarrow> StreamPresence" where
  "render U p =
     \<lparr>sp_UserId = uuid_String U (UserID p),
      sp_SessionId = uuid_String U (SessionID (ID p)),
      sp_Username = Username (Meta p)\<rparr>"

text \<open>Lines 153 to 173: the reply with the match and its presences.\<close>

definition matchJoin_reply ::
    "uuid_pkg \<Rightarrow> session \<Rightarrow> string \<Rightarrow> string \<Rightarrow> PresenceStream \<Rightarrow> PresenceMeta \<Rightarrow> state \<Rightarrow> state" where
  "matchJoin_reply U session cid matchIDString stream meta st =
     (let ps = ListByStream (tracker st) stream;
          st1 = emit (Tracker_ListByStream stream) st;
          presences = map (render U) ps;
          self = \<lparr>sp_UserId = uuid_String U (session_UserID session),
                  sp_SessionId = uuid_String U (session_ID session),
                  sp_Username = Username meta\<rparr>
      in session_Send
           \<lparr>Cid = cid,
            Message = Envelope_Match
              \<lparr>m_MatchId = matchIDString, m_Presences = presences, m_Self = self\<rparr>\<rparr> st1)"

text \<open>
  Lines 102 to 174: the join on the stream of the parsed identifier and node label.
  \<open>reply\<close> and \<open>pick\<close> are passed on to the registry's \<open>Join\<close>.
\<close>

definition matchJoin_stream ::
    "uuid_pkg \<Rightarrow> session \<Rightarrow> string \<Rightarrow> string \<Rightarrow> uuid \<Rightarrow> string \<Rightarrow> (nat \<times> bool) option \<Rightarrow> bool \<Rightarrow>
     state \<Rightarrow> state" where
  "matchJoin_stream U session cid matchIDString matchID node reply pick st =
     (let mode = (if node \<noteq> [] then StreamModeMatchAuthoritative else StreamModeMatchRelayed);
          stream = \<lparr>Mode = mode, Subject = matchID, Label = node\<rparr>;
          st0 = (if mode = StreamModeMatchRelayed then emit (Tracker_StreamExists stream) st
                 else st)
      in
      if mode = StreamModeMatchRelayed \<and> \<not> StreamExists (tracker st) stream then
        session_Send
          \<lparr>Cid = cid, Message = Envelope_Error Error_MATCH_NOT_FOUND ''Match not found''\<rparr> st0
      else
        (let meta = GetLocalBySessionIDStreamUserID (tracker st0)
                      (session_ID session) stream (session_UserID session);
             st1 = emit (Tracker_GetLocalBySessionIDStreamUserID
                      (session_ID session) stream (session_UserID session)) st0
         in case meta of
              Some m \<Rightarrow> matchJoin_reply U session cid matchIDString stream m st1
            | None \<Rightarrow>
                (let username = session_Username session;
                     (fa, st2) =
                       (if mode = StreamModeMatchAuthoritative then
                          Join matchID node (session_UserID session) (session_ID session)
                            username (p_node st1) reply pick
                            (emit (Registry_Join matchID node (session_UserID session)
                               (session_ID session) username (p_node st1)) st1)
                        else ((True, True), st1))
                 in
                 if \<not> fst fa then
                   session_Send
                     \<lparr>Cid = cid,
                      Message = Envelope_Error Error_MATCH_NOT_FOUND ''Match join rejected''\<rparr> st2
                 else if \<not> snd fa then
                   session_Send
                     \<lparr>Cid = cid,
                      Message = Envelope_Error Error_MATCH_JOIN_REJECTED ''Match join rejected''\<rparr>
                     st2
                 else
                   (let m = \<lparr>Format = session_Format session, Username = username\<rparr>;
                        st3 = tracker_Track (session_ID session) stream
                                (session_UserID session) m st2
                    in matchJoin_reply U session cid matchIDString stream m st3))))"

text \<open>
  The whole handler. \<open>m.Id\<close> of a nil \<open>m\<close> panics, and so does \<open>.MatchId\<close> of the nil that
  \<open>envelope.GetMatchLeave()\<close> returns for an envelope that is not a leave. The \<open>default\<close>
  case of the type switch has no value to run on: the one-of has the two alternatives.
\<close>

definition matchJoin ::
    "uuid_pkg \<Rightarrow> session \<Rightarrow> Envelope \<Rightarrow> (nat \<times> bool) option \<Rightarrow> bool \<Rightarrow> state \<Rightarrow> panic + state" where
  "matchJoin U session envelope reply pick st =
     (case GetMatchJoin envelope of
        None \<Rightarrow> Inl nil_pointer_dereference
      | Some m_Id \<Rightarrow>
          (case m_Id of
             MatchJoin_MatchId matchIDString \<Rightarrow>
               (case GetMatchLeave envelope of
                  None \<Rightarrow> Inl nil_pointer_dereference
                | Some leave_MatchId \<Rightarrow>
                    (let matchIDComponents = SplitN_colon_2 leave_MatchId in
                     if length matchIDComponents \<noteq> 2 then
                       Inr (session_Send (bad_input (Cid envelope) ''Invalid match ID'') st)
                     else
                       (case uuid_FromString U (matchIDComponents ! 0) of
                          None \<Rightarrow>
                            Inr (session_Send (bad_input (Cid envelope) ''Invalid match ID'') st)
                        | Some matchID \<Rightarrow>
                            Inr (matchJoin_stream U session (Cid envelope) matchIDString
                                   matchID (matchIDComponents ! 1) reply pick st))))
           | MatchJoin_Token token \<Rightarrow>
               Inr (session_Send
                      (bad_input (Cid envelope) ''Token-based match join not available'') st)
           | MatchJoin_Id_nil \<Rightarrow>
               Inr (session_Send
                      (bad_input (Cid envelope) ''No match ID or token found'') st)))"

subsection \<open>matchLeave\<close>

definition matchLeave :: "uuid_pkg \<Rightarrow> session \<Rightarrow> Envelope \<Rightarrow> state \<Rightarrow> panic + state" where
  "matchLeave U session envelope st =
     (case GetMatchLeave envelope of
        None \<Rightarrow> Inl nil_pointer_dereference
      | Some leave_MatchId \<Rightarrow>
          (let matchIDComponents = SplitN_colon_2 leave_MatchId in
           if length matchIDComponents \<noteq> 2 then
             Inr (session_Send (bad_input (Cid envelope) ''Invalid match ID'') st)
           else
             (case uuid_FromString U (matchIDComponents ! 0) of
                None \<Rightarrow> Inr (session_Send (bad_input (Cid envelope) ''Invalid match ID'') st)
              | Some matchID \<Rightarrow>
                  (let mode = (if matchIDComponents ! 1 \<noteq> [] then StreamModeMatchAuthoritative
                               else StreamModeMatchRelayed);
                       stream = \<lparr>Mode = mode, Subject = matchID,
                                 Label = matchIDComponents ! 1\<rparr>;
                       st1 = tracker_Untrack (session_ID session) stream
                               (session_UserID session) st
                   in Inr (session_Send \<lparr>Cid = Cid envelope, Message = Envelope_nil\<rparr> st1)))))"

subsection \<open>matchDataSend\<close>

text \<open>
  Lines 233 to 248: the filters. The outer \<open>None\<close> is the early return at an identifier
  that does not parse; \<open>Some None\<close> is the \<open>filters\<close> slice left nil, when the message
  names no presence.
\<close>

fun parse_filter_entries :: "uuid_pkg \<Rightarrow> StreamPresence list \<Rightarrow> matchDataFilter list option" where
  "parse_filter_entries U [] = Some []"
| "parse_filter_entries U (x # xs) =
     (case uuid_FromString U (sp_UserId x) of
        None \<Rightarrow> None
      | Some userID \<Rightarrow>
          (case uuid_FromString U (sp_SessionId x) of
             None \<Rightarrow> None
           | Some sessionID \<Rightarrow>
               (case parse_filter_entries U xs of
                  None \<Rightarrow> None
                | Some fs \<Rightarrow> Some (\<lparr>f_userID = userID, f_sessionID = sessionID\<rparr> # fs))))"

definition parse_filters ::
    "uuid_pkg \<Rightarrow> StreamPresence list \<Rightarrow> matchDataFilter list option option" where
  "parse_filters U presences =
     (if length presences \<noteq> 0 then
        (case parse_filter_entries U presences of None \<Rightarrow> None | Some fs \<Rightarrow> Some (Some fs))
      else Some None)"

text \<open>
  Lines 273 to 281: the search for the first filter that names the presence \<open>p\<close>, from
  index \<open>j\<close> on. A filter that matches is removed in place; \<open>None\<close> is \<open>filterFound\<close>
  staying false.
\<close>

function filter_loop :: "matchDataFilter list \<Rightarrow> Presence \<Rightarrow> nat \<Rightarrow> matchDataFilter list option" where
  "filter_loop filters p j =
     (if j < length filters then
        (if SessionID (ID p) = f_sessionID (filters ! j) \<and> UserID p = f_userID (filters ! j)
         then Some (swap_remove filters j)
         else filter_loop filters p (Suc j))
      else None)"
  by pat_completeness auto
termination
  by (relation "measure (\<lambda>(filters, p, j). length filters - j)") auto

text \<open>
  Lines 257 to 289: the loop over the presences of the stream, from index \<open>i\<close> on. The
  result is the slice \<open>ps\<close> and the flag \<open>senderFound\<close> at the end of the loop. A filter
  list that has been used up is an empty slice, not nil.
\<close>

function presences_loop ::
    "session \<Rightarrow> Presence list \<Rightarrow> matchDataFilter list option \<Rightarrow> nat \<Rightarrow> bool \<Rightarrow>
     Presence list \<times> bool" where
  "presences_loop session ps filters i senderFound =
     (if i < length ps then
        (if SessionID (ID (ps ! i)) = session_ID session \<and>
            UserID (ps ! i) = session_UserID session
         then
           (case filters of
              None \<Rightarrow> (swap_remove ps i, True)
            | Some fs \<Rightarrow> presences_loop session (swap_remove ps i) filters i True)
         else
           (case filters of
              None \<Rightarrow> presences_loop session ps filters (Suc i) senderFound
            | Some fs \<Rightarrow>
                (case filter_loop fs (ps ! i) 0 of
                   Some fs' \<Rightarrow> presences_loop session ps (Some fs') (Suc i) senderFound
                 | None \<Rightarrow> presences_loop session (swap_remove ps i) filters i senderFound)))
      else (ps, senderFound))"
  by pat_completeness auto
termination
  by (relation "measure (\<lambda>(session, ps, filters, i, senderFound). length ps - i)")
     (auto simp: swap_remove_def)

declare filter_loop.simps [simp del] presences_loop.simps [simp del]

text \<open>Lines 301 to 310: the envelope that carries the data to the recipients.\<close>

definition outgoing_envelope :: "uuid_pkg \<Rightarrow> session \<Rightarrow> MatchDataSend \<Rightarrow> Envelope" where
  "outgoing_envelope U session incoming =
     \<lparr>Cid = [],
      Message = Envelope_MatchData
        \<lparr>md_MatchId = mds_MatchId incoming,
         md_Presence =
           \<lparr>sp_UserId = uuid_String U (session_UserID session),
            sp_SessionId = uuid_String U (session_ID session),
            sp_Username = session_Username session\<rparr>,
         md_OpCode = mds_OpCode incoming,
         md_Data = mds_Data incoming\<rparr>\<rparr>"

text \<open>Lines 250 to 312: the routing of a relayed message to the presences of the stream.\<close>

definition matchDataSend_relayed ::
    "uuid_pkg \<Rightarrow> session \<Rightarrow> MatchDataSend \<Rightarrow> uuid \<Rightarrow> matchDataFilter list option \<Rightarrow>
     state \<Rightarrow> state" where
  "matchDataSend_relayed U session incoming matchID filters st =
     (let stream = \<lparr>Mode = StreamModeMatchRelayed, Subject = matchID, Label = []\<rparr>;
          ps = ListByStream (tracker st) stream;
          st1 = emit (Tracker_ListByStream stream) st
      in
      if length ps = 0 then st1
      else
        (let (ps', senderFound) = presences_loop session ps filters 0 False in
         if \<not> senderFound then st1
         else if length ps' = 0 then st1
         else
           (let outgoing = outgoing_envelope U session incoming
            in emit (SendToPresences ps' outgoing) st1)))"

text \<open>
  Lines 222 to 312, on the parsed identifier and node label. \<open>incoming\<close> is what
  \<open>envelope.GetMatchDataSend()\<close> returned; reading a field of a nil \<open>incoming\<close> panics.
\<close>

definition matchDataSend_route ::
    "uuid_pkg \<Rightarrow> session \<Rightarrow> MatchDataSend option \<Rightarrow> uuid \<Rightarrow> string \<Rightarrow> state \<Rightarrow> panic + state" where
  "matchDataSend_route U session incoming matchID node st =
     (if node \<noteq> [] then
        (let stream = \<lparr>Mode = StreamModeMatchAuthoritative, Subject = matchID, Label = node\<rparr>;
             meta = GetLocalBySessionIDStreamUserID (tracker st)
                      (session_ID session) stream (session_UserID session);
             st1 = emit (Tracker_GetLocalBySessionIDStreamUserID
                      (session_ID session) stream (session_UserID session)) st
         in
         if meta = None then Inr st1
         else
           (case incoming of
              None \<Rightarrow> Inl nil_pointer_dereference
            | Some d \<Rightarrow>
                Inr (SendData matchID node (session_UserID session) (session_ID session)
                       (session_Username session) (p_node st1) (mds_OpCode d) (mds_Data d)
                       (emit (Registry_SendData matchID node (session_UserID session)
                          (session_ID session) (session_Username session) (p_node st1)
                          (mds_OpCode d) (mds_Data d)) st1))))
      else
        (case incoming of
           None \<Rightarrow> Inl nil_pointer_dereference
         | Some d \<Rightarrow>
             (case parse_filters U (mds_Presences d) of
                None \<Rightarrow> Inr st
              | Some filters \<Rightarrow> Inr (matchDataSend_relayed U session d matchID filters st))))"

definition matchDataSend :: "uuid_pkg \<Rightarrow> session \<Rightarrow> Envelope \<Rightarrow> state \<Rightarrow> panic + state" where
  "matchDataSend U session envelope st =
     (let incoming = GetMatchDataSend envelope in
      case GetMatchLeave envelope of
        None \<Rightarrow> Inl nil_pointer_dereference
      | Some leave_MatchId \<Rightarrow>
          (let matchIDComponents = SplitN_colon_2 leave_MatchId in
           if length matchIDComponents \<noteq> 2 then Inr st
           else
             (case uuid_FromString U (matchIDComponents ! 0) of
                None \<Rightarrow> Inr st
              | Some matchID \<Rightarrow>
                  matchDataSend_route U session incoming matchID (matchIDComponents ! 1) st)))"

section \<open>Keys of presences, filters and senders\<close>

text \<open>
  A presence, a filter and the sending session are compared by their session and user
  identifiers.
\<close>

definition presence_key :: "Presence \<Rightarrow> uuid \<times> uuid" where
  "presence_key p = (SessionID (ID p), UserID p)"

definition filter_key :: "matchDataFilter \<Rightarrow> uuid \<times> uuid" where
  "filter_key f = (f_sessionID f, f_userID f)"

definition sender_key :: "session \<Rightarrow> uuid \<times> uuid" where
  "sender_key s = (session_ID s, session_UserID s)"

section \<open>Concrete data\<close>

text \<open>
  A toy UUID package for the examples; three sessions on the relayed match 100, Bob also
  on the authoritative match 1 of node \<open>n1\<close>, and Dave on no stream.
\<close>

definition ex_uuid :: uuid_pkg where
  "ex_uuid =
     \<lparr>uuid_FromString = map_of
        [(''m100'', 100), (''m1'', 1), (''s1'', 1), (''u11'', 11), (''s2'', 2), (''u12'', 12),
         (''s3'', 3), (''u13'', 13), (''s4'', 4), (''u14'', 14)],
      uuid_String = (\<lambda>u. if u = 100 then ''m100'' else if u = 1 then ''s1''
         else if u = 11 then ''u11'' else if u = 2 then ''s2'' else if u = 12 then ''u12''
         else if u = 3 then ''s3'' else if u = 13 then ''u13'' else ''x'')\<rparr>"

definition ex_alice :: session where
  "ex_alice = \<lparr>session_ID = 1, session_UserID = 11, session_Username = ''alice'',
               session_Format = 0\<rparr>"

definition ex_bob :: session where
  "ex_bob = \<lparr>session_ID = 2, session_UserID = 12, session_Username = ''bob'',
             session_Format = 0\<rparr>"

definition ex_dave :: session where
  "ex_dave = \<lparr>session_ID = 4, session_UserID = 14, session_Username = ''dave'',
              session_Format = 0\<rparr>"

definition ex_relayed :: PresenceStream where
  "ex_relayed = \<lparr>Mode = StreamModeMatchRelayed, Subject = 100, Label = []\<rparr>"

definition ex_authoritative :: PresenceStream where
  "ex_authoritative = \<lparr>Mode = StreamModeMatchAuthoritative, Subject = 1, Label = ''n1''\<rparr>"

definition ex_A :: Presence where
  "ex_A = \<lparr>ID = \<lparr>Node = ''n1'', SessionID = 1\<rparr>, Stream = ex_relayed, UserID = 11,
           Meta = \<lparr>Format = 0, Username = ''alice''\<rparr>\<rparr>"

definition ex_B :: Presence where
  "ex_B = \<lparr>ID = \<lparr>Node = ''n1'', SessionID = 2\<rparr>, Stream = ex_relayed, UserID = 12,
           Meta = \<lparr>Format = 0, Username = ''bob''\<rparr>\<rparr>"

definition ex_C :: Presence where
  "ex_C = \<lparr>ID = \<lparr>Node = ''n2'', SessionID = 3\<rparr>, Stream = ex_relayed, UserID = 13,
           Meta = \<lparr>Format = 0, Username = ''carol''\<rparr>\<rparr>"

definition ex_B1 :: Presence where
  "ex_B1 = \<lparr>ID = \<lparr>Node = ''n1'', SessionID = 2\<rparr>, Stream = ex_authoritative, UserID = 12,
            Meta = \<lparr>Format = 0, Username = ''bob''\<rparr>\<rparr>"

definition ex_data :: MatchDataSend where
  "ex_data = \<lparr>mds_MatchId = ''m100:'', mds_OpCode = 7, mds_Data = [1, 2],
              mds_Presences = []\<rparr>"

definition ex_bad_data :: MatchDataSend where
  "ex_bad_data =
     \<lparr>mds_MatchId = ''m100:'', mds_OpCode = 7, mds_Data = [1, 2],
      mds_Presences =
        [\<lparr>sp_UserId = ''u12'', sp_SessionId = ''s2'', sp_Username = ''bob''\<rparr>,
         \<lparr>sp_UserId = ''u13'', sp_SessionId = ''zz'', sp_Username = ''carol''\<rparr>]\<rparr>"

definition ex_send :: Envelope where
  "ex_send = \<lparr>Cid = [], Message = Envelope_MatchDataSend ex_data\<rparr>"

definition ex_bad_send :: Envelope where
  "ex_bad_send = \<lparr>Cid = [], Message = Envelope_MatchDataSend ex_bad_data\<rparr>"

definition ex_join_relayed :: Envelope where
  "ex_join_relayed = \<lparr>Cid = ''c1'', Message = Envelope_MatchJoin (MatchJoin_MatchId ''m100:'')\<rparr>"

definition ex_join_authoritative :: Envelope where
  "ex_join_authoritative =
     \<lparr>Cid = ''c1'', Message = Envelope_MatchJoin (MatchJoin_MatchId ''m1:n1'')\<rparr>"

definition ex_leave :: Envelope where
  "ex_leave = \<lparr>Cid = ''c1'', Message = Envelope_MatchLeave ''m1:n1''\<rparr>"

text \<open>
  Node \<open>n1\<close> with two actors, one with room in its mailbox and one full: first with an
  empty tracker, then with the presences above.
\<close>

definition ex_handler :: MatchHandler where
  "ex_handler = \<lparr>mailbox = [], capacity = 1, closed = False\<rparr>"

definition ex_full_handler :: MatchHandler where
  "ex_full_handler = \<lparr>mailbox = [LeaveCall []], capacity = 1, closed = False\<rparr>"

definition ex_registry :: state where
  "ex_registry =
     \<lparr>p_node = ''n1'', r_node = ''n1'',
      tracker = \<lparr>t_name = ''n1'', t_presences = []\<rparr>,
      matches = [1 \<mapsto> ex_handler, 2 \<mapsto> ex_full_handler], trace = []\<rparr>"

definition ex_state :: state where
  "ex_state =
     \<lparr>p_node = ''n1'', r_node = ''n1'',
      tracker = \<lparr>t_name = ''n1'', t_presences = [ex_A, ex_B, ex_C, ex_B1]\<rparr>,
      matches = [1 \<mapsto> ex_handler, 2 \<mapsto> ex_full_handler], trace = []\<rparr>"

section \<open>Properties of the registry\<close>

lemma UntrackByStream_empty: "ListByStream (UntrackByStream t stream) stream = []"
  by (simp add: ListByStream_def UntrackByStream_def filter_empty_conv)

lemma UntrackByStream_idem:
  "UntrackByStream (UntrackByStream t stream) stream = UntrackByStream t stream"
  by (simp add: UntrackByStream_def)

text \<open>
  C2: \<open>Join\<close> answers (false, false) for another node and for an identifier that is not in
  the directory. For a registered actor whose mailbox does not take the join attempt it
  answers (true, false) whatever the actor would have replied, and the call starts no
  ticker: the events it adds to the trace have none. When the attempt is enqueued, a reply
  that comes before the ten seconds of the ticker gives (true, answer), and no reply or a
  reply after the ten seconds gives (true, false).
\<close>

theorem Join_outcomes:
  "(node \<noteq> r_node st \<longrightarrow>
      fst (Join mid node userID sessionID username fromNode reply pick st) = (False, False))
   \<and> (node = r_node st \<and> matches st mid = None \<longrightarrow>
      fst (Join mid node userID sessionID username fromNode reply pick st) = (False, False))
   \<and> (node = r_node st \<and> matches st mid = Some mh \<and>
      QueueCall mh (JoinAttempt userID sessionID username fromNode) = None \<longrightarrow>
      fst (Join mid node userID sessionID username fromNode reply pick st) = (True, False)
      \<and> (\<forall>d. NewTicker d \<notin> set (drop (length (trace st))
             (trace (snd (Join mid node userID sessionID username fromNode reply pick st))))))
   \<and> (node = r_node st \<and> matches st mid = Some mh \<and>
      QueueCall mh (JoinAttempt userID sessionID username fromNode) \<noteq> None \<longrightarrow>
        (\<forall>t answer. reply = Some (t, answer) \<and> t < 10 * time_Second \<longrightarrow>
           fst (Join mid node userID sessionID username fromNode reply pick st) = (True, answer))
      \<and> ((reply = None \<or> (\<exists>t answer. reply = Some (t, answer) \<and> 10 * time_Second < t)) \<longrightarrow>
           fst (Join mid node userID sessionID username fromNode reply pick st) = (True, False)))"
  by (auto simp: Join_def Let_def emit_def select_ticker_resultCh_def split: option.splits)

theorem Join_outcomes_witness:
  "''n1'' = r_node ex_registry
   \<and> matches ex_registry 2 = Some ex_full_handler
   \<and> QueueCall ex_full_handler (JoinAttempt 11 1 ''alice'' ''n1'') = None
   \<and> fst (Join 2 ''n1'' 11 1 ''alice'' ''n1'' (Some (5, True)) True ex_registry) = (True, False)
   \<and> matches ex_registry 1 = Some ex_handler
   \<and> QueueCall ex_handler (JoinAttempt 11 1 ''alice'' ''n1'') \<noteq> None
   \<and> (5::nat) < 10 * time_Second
   \<and> fst (Join 1 ''n1'' 11 1 ''alice'' ''n1'' (Some (5, True)) True ex_registry) = (True, True)
   \<and> fst (Join 1 ''n1'' 11 1 ''alice'' ''n1'' None True ex_registry) = (True, False)
   \<and> matches ex_registry 3 = None
   \<and> fst (Join 3 ''n1'' 11 1 ''alice'' ''n1'' (Some (5, True)) True ex_registry) = (False, False)"
proof -
  have n: "''n1'' = r_node ex_registry"
    by (simp add: ex_registry_def)
  have full: "matches ex_registry 2 = Some ex_full_handler"
    by (simp add: ex_registry_def)
  have q_full: "QueueCall ex_full_handler (JoinAttempt 11 1 ''alice'' ''n1'') = None"
    by (simp add: QueueCall_def enqueue_def ex_full_handler_def)
  have room: "matches ex_registry 1 = Some ex_handler"
    by (simp add: ex_registry_def)
  have q_room: "QueueCall ex_handler (JoinAttempt 11 1 ''alice'' ''n1'') \<noteq> None"
    by (simp add: QueueCall_def enqueue_def ex_handler_def)
  have early: "(5::nat) < 10 * time_Second"
    by (simp add: time_Second_def)
  have unknown: "matches ex_registry 3 = None"
    by (simp add: ex_registry_def)
  have r1: "fst (Join 2 ''n1'' 11 1 ''alice'' ''n1'' (Some (5, True)) True ex_registry)
              = (True, False)"
    using Join_outcomes [of "''n1''" ex_registry 2 11 1 "''alice''" "''n1''" "Some (5, True)"
        True ex_full_handler] n full q_full by blast
  have r2: "fst (Join 1 ''n1'' 11 1 ''alice'' ''n1'' (Some (5, True)) True ex_registry)
              = (True, True)"
    using Join_outcomes [of "''n1''" ex_registry 1 11 1 "''alice''" "''n1''" "Some (5, True)"
        True ex_handler] n room q_room early by blast
  have r3: "fst (Join 1 ''n1'' 11 1 ''alice'' ''n1'' None True ex_registry) = (True, False)"
    using Join_outcomes [of "''n1''" ex_registry 1 11 1 "''alice''" "''n1''" None
        True ex_handler] n room q_room by blast
  have r4: "fst (Join 3 ''n1'' 11 1 ''alice'' ''n1'' (Some (5, True)) True ex_registry)
              = (False, False)"
    using Join_outcomes [of "''n1''" ex_registry 3 11 1 "''alice''" "''n1''" "Some (5, True)"
        True ex_handler] n unknown by blast
  from n full q_full room q_room early unknown r1 r2 r3 r4 show ?thesis by blast
qed

text \<open>
  C5: \<open>Join\<close>, \<open>Leave\<close> and \<open>SendData\<close> addressed to a node other than the registry's own
  return at once: \<open>Join\<close> answers (false, false) and each of the three returns the state
  it was given, so the directory has not been read (the trace has no new entry), no actor
  has been replaced and no mailbox has grown.
\<close>

theorem registry_other_node:
  assumes "node \<noteq> r_node st"
  shows "Join mid node userID sessionID username fromNode reply pick st = ((False, False), st)
       \<and> Leave mid node presences st = st
       \<and> SendData mid node userID sessionID username fromNode opCode data st = st"
  using assms by (simp add: Join_def Leave_def SendData_def)

theorem registry_other_node_witness:
  "''n2'' \<noteq> r_node ex_registry
   \<and> Join 1 ''n2'' 11 1 ''alice'' ''n1'' (Some (5, True)) True ex_registry
       = ((False, False), ex_registry)
   \<and> Leave 1 ''n2'' [] ex_registry = ex_registry
   \<and> SendData 1 ''n2'' 11 1 ''alice'' ''n1'' 3 [] ex_registry = ex_registry"
proof -
  have h: "''n2'' \<noteq> r_node ex_registry"
    by (simp add: ex_registry_def)
  from h registry_other_node [OF h, of 1 11 1 "''alice''" "''n1''" "Some (5, True)" True "[]" 3 "[]"]
  show ?thesis by blast
qed

text \<open>
  C8: after \<open>RemoveMatch\<close> the identifier is not in the directory and every other entry
  is as before; \<open>UntrackByStream\<close> has been called on the stream, registered identifier or
  not, and the stream has no presence left. Removing an identifier that is not registered
  leaves the directory as it was, and a second removal changes neither the directory nor
  the tracker.
\<close>

theorem RemoveMatch_removes:
  "mid \<notin> dom (matches (RemoveMatch mid stream st))
   \<and> (\<forall>k. k \<noteq> mid \<longrightarrow> matches (RemoveMatch mid stream st) k = matches st k)
   \<and> trace (RemoveMatch mid stream st)
       = trace st @ [Matches_delete mid, Tracker_UntrackByStream stream]
   \<and> tracker (RemoveMatch mid stream st) = UntrackByStream (tracker st) stream
   \<and> ListByStream (tracker (RemoveMatch mid stream st)) stream = []
   \<and> (mid \<notin> dom (matches st) \<longrightarrow> matches (RemoveMatch mid stream st) = matches st)
   \<and> matches (RemoveMatch mid stream (RemoveMatch mid stream st))
       = matches (RemoveMatch mid stream st)
   \<and> tracker (RemoveMatch mid stream (RemoveMatch mid stream st))
       = tracker (RemoveMatch mid stream st)"
  by (auto simp: RemoveMatch_def tracker_UntrackByStream_def emit_def
        UntrackByStream_empty UntrackByStream_idem)

theorem RemoveMatch_removes_witness:
  "3 \<notin> dom (matches ex_registry)
   \<and> matches (RemoveMatch 3 \<lparr>Mode = StreamModeMatchAuthoritative, Subject = 3, Label = ''n1''\<rparr>
        ex_registry) = matches ex_registry
   \<and> (1::uuid) \<noteq> 3
   \<and> matches (RemoveMatch 3 \<lparr>Mode = StreamModeMatchAuthoritative, Subject = 3, Label = ''n1''\<rparr>
        ex_registry) 1 = matches ex_registry 1
   \<and> trace (RemoveMatch 3 \<lparr>Mode = StreamModeMatchAuthoritative, Subject = 3, Label = ''n1''\<rparr>
        ex_registry)
       = trace ex_registry @ [Matches_delete 3, Tracker_UntrackByStream
            \<lparr>Mode = StreamModeMatchAuthoritative, Subject = 3, Label = ''n1''\<rparr>]"
proof -
  have h: "3 \<notin> dom (matches ex_registry)"
    by (simp add: ex_registry_def)
  have d: "(1::uuid) \<noteq> 3"
    by simp
  from h d RemoveMatch_removes [of 3
      "\<lparr>Mode = StreamModeMatchAuthoritative, Subject = 3, Label = ''n1''\<rparr>" ex_registry]
  show ?thesis by blast
qed

section \<open>Properties of the relayed routing\<close>

subsection \<open>Removal in place\<close>

lemma length_swap_remove: "length (swap_remove xs i) = length xs - 1"
  by (simp add: swap_remove_def)

lemma take_swap_remove: "i < length xs \<Longrightarrow> take i (swap_remove xs i) = take i xs"
  by (simp add: swap_remove_def take_butlast)

lemma mset_butlast_head: "mset (butlast ((x # rest)[0 := last (x # rest)])) = mset rest"
proof (cases "rest = []")
  case True
  then show ?thesis by simp
next
  case False
  then have "mset (last rest # butlast rest) = mset rest"
    by (metis append_butlast_last_id mset_rev rev.simps(2) mset.simps(2) union_mset_add_mset_right mset_append)
  with False show ?thesis by simp
qed

lemma mset_drop_swap_remove:
  assumes "i < length xs"
  shows "mset (drop i (swap_remove xs i)) = mset (drop (Suc i) xs)"
proof -
  have d: "drop i xs = xs ! i # drop (Suc i) xs"
    using assms by (simp add: Cons_nth_drop_Suc)
  have l: "last xs = last (drop i xs)"
    using assms by simp
  have "drop i (swap_remove xs i) = butlast (drop i (xs[i := last xs]))"
    by (simp only: swap_remove_def butlast_drop)
  also have "\<dots> = butlast ((drop i xs)[0 := last xs])"
    by (simp add: drop_update_swap)
  also have "\<dots> = butlast ((xs ! i # drop (Suc i) xs)[0 := last (xs ! i # drop (Suc i) xs)])"
    using d l by simp
  finally show ?thesis
    by (simp only: mset_butlast_head)
qed

lemma mset_swap_remove:
  assumes "i < length xs"
  shows "mset (swap_remove xs i) = mset xs - {#xs ! i#}"
proof -
  have "mset (swap_remove xs i) = mset (take i (swap_remove xs i)) + mset (drop i (swap_remove xs i))"
    by (metis append_take_drop_id mset_append)
  also have "\<dots> = mset (take i xs) + mset (drop (Suc i) xs)"
    using assms by (simp add: take_swap_remove mset_drop_swap_remove)
  also have "\<dots> = mset xs - {#xs ! i#}"
    using assms by (metis add_mset_remove_trivial id_take_nth_drop mset.simps(2) mset_append union_mset_add_mset_right)
  finally show ?thesis .
qed

subsection \<open>The two loops\<close>

lemma filter_loop_Some:
  "filter_loop fs p j = Some fs' \<Longrightarrow>
     \<exists>k. j \<le> k \<and> k < length fs \<and> filter_key (fs ! k) = presence_key p \<and> fs' = swap_remove fs k"
proof (induction fs p j rule: filter_loop.induct)
  case (1 filters p j)
  show ?case
  proof (cases "j < length filters \<and> \<not> (SessionID (ID p) = f_sessionID (filters ! j) \<and> UserID p = f_userID (filters ! j))")
    case True
    with "1.prems" have "filter_loop filters p (Suc j) = Some fs'"
      by (subst (asm) filter_loop.simps) simp
    with True "1.IH" obtain k where "Suc j \<le> k" "k < length filters"
        "filter_key (filters ! k) = presence_key p" "fs' = swap_remove filters k"
      by blast
    then show ?thesis by (intro exI [of _ k]) simp
  next
    case False
    with "1.prems" have "j < length filters" "fs' = swap_remove filters j"
        "filter_key (filters ! j) = presence_key p"
      by (subst (asm) filter_loop.simps, auto simp: filter_key_def presence_key_def split: if_splits)+
    then show ?thesis by (intro exI [of _ j]) simp
  qed
qed

lemma filter_loop_None:
  "filter_loop fs p j = None \<Longrightarrow> j \<le> k \<Longrightarrow> k < length fs \<Longrightarrow>
     filter_key (fs ! k) \<noteq> presence_key p"
proof (induction fs p j rule: filter_loop.induct)
  case (1 filters p j)
  from "1.prems" have j: "j < length filters" by simp
  from "1.prems"(1) j have no: "\<not> (SessionID (ID p) = f_sessionID (filters ! j) \<and> UserID p = f_userID (filters ! j))"
    by (subst (asm) filter_loop.simps) (auto split: if_splits)
  from "1.prems"(1) j no have rest: "filter_loop filters p (Suc j) = None"
    by (subst (asm) filter_loop.simps) simp
  show ?case
  proof (cases "k = j")
    case True
    with no show ?thesis by (auto simp: filter_key_def presence_key_def)
  next
    case False
    with "1.prems" have "Suc j \<le> k" by simp
    with "1.IH" [OF j no rest _ "1.prems"(3)] show ?thesis by simp
  qed
qed

lemma filter_loop_found:
  assumes "filter_loop fs p 0 = Some fs'"
  shows "presence_key p \<in># mset (map filter_key fs)"
    and "mset (map filter_key fs') = mset (map filter_key fs) - {#presence_key p#}"
proof -
  from filter_loop_Some [OF assms] obtain k where k: "k < length fs"
      "filter_key (fs ! k) = presence_key p" "fs' = swap_remove fs k"
    by blast
  from k(1,2) show "presence_key p \<in># mset (map filter_key fs)"
    by (metis in_multiset_in_set length_map nth_map nth_mem)
  have "mset (map filter_key fs') = image_mset filter_key (mset fs - {#fs ! k#})"
    using k by (simp add: mset_swap_remove)
  also have "\<dots> = image_mset filter_key (mset fs) - {#filter_key (fs ! k)#}"
    using k(1) by (simp add: image_mset_Diff)
  finally show "mset (map filter_key fs') = mset (map filter_key fs) - {#presence_key p#}"
    using k(2) by simp
qed

lemma filter_loop_not_found:
  assumes "filter_loop fs p 0 = None"
  shows "presence_key p \<notin># mset (map filter_key fs)"
proof
  assume "presence_key p \<in># mset (map filter_key fs)"
  then obtain k where "k < length fs" "filter_key (fs ! k) = presence_key p"
    by (auto simp: in_set_conv_nth)
  with filter_loop_None [OF assms, of k] show False by simp
qed

lemma set_drop_swap_remove:
  "i < length xs \<Longrightarrow> set (drop i (swap_remove xs i)) = set (drop (Suc i) xs)"
  by (metis mset_drop_swap_remove set_mset_mset)

lemma presences_loop_filtered:
  assumes "presences_loop s ps filters i b = (R, b')" and "filters = Some fs"
  shows "b' = (b \<or> sender_key s \<in> presence_key ` set (drop i ps))
       \<and> (\<exists>R'. R = take i ps @ R' \<and> mset R' \<subseteq># mset (drop i ps)
            \<and> image_mset presence_key (mset R')
                = filter_mset (\<lambda>k. k \<noteq> sender_key s) (image_mset presence_key (mset (drop i ps)))
                  \<inter># mset (map filter_key fs))"
  using assms
proof (induction s ps filters i b arbitrary: fs R b' rule: presences_loop.induct)
  case (1 session ps filters i senderFound)
  let ?s = "sender_key session"
  let ?K = "\<lambda>xs. image_mset presence_key (mset xs)"
  let ?F = "\<lambda>xs. filter_mset (\<lambda>k. k \<noteq> ?s) (?K xs)"
  show ?case
  proof (cases "i < length ps")
    case False
    with "1.prems" have "R = ps" "b' = senderFound"
      by (subst (asm) presences_loop.simps, simp)+
    with False show ?thesis by simp
  next
    case len: True
    let ?p = "ps ! i"
    have d: "drop i ps = ?p # drop (Suc i) ps"
      using len by (simp add: Cons_nth_drop_Suc)
    show ?thesis
    proof (cases "SessionID (ID ?p) = session_ID session \<and> UserID ?p = session_UserID session")
      case snd: True
      then have key: "presence_key ?p = ?s"
        by (simp add: presence_key_def sender_key_def)
      from "1.prems" len snd
      have run: "presences_loop session (swap_remove ps i) filters i True = (R, b')"
        by (subst (asm) presences_loop.simps) simp
      from "1.IH"(1) [OF len snd "1.prems"(2) run "1.prems"(2)]
      obtain R' where b': "b'" and R: "R = take i (swap_remove ps i) @ R'"
          and sub: "mset R' \<subseteq># mset (drop i (swap_remove ps i))"
          and keys: "?K R' = ?F (drop i (swap_remove ps i)) \<inter># mset (map filter_key fs)"
        by auto
      have "?F (drop i ps) = ?F (drop (Suc i) ps)"
        using key by (simp add: d)
      with keys have k2: "?K R' = ?F (drop i ps) \<inter># mset (map filter_key fs)"
        using len by (simp add: mset_drop_swap_remove)
      have "mset (drop (Suc i) ps) \<subseteq># mset (drop i ps)"
        by (simp add: d)
      with sub have s2: "mset R' \<subseteq># mset (drop i ps)"
        using len by (metis mset_drop_swap_remove subset_mset.order_trans)
      have "sender_key session \<in> presence_key ` set (drop i ps)"
        using key d by (metis image_eqI list.set_intros(1))
      with b' R s2 k2 len show ?thesis
        by (auto simp: take_swap_remove)
    next
      case nosnd: False
      then have key: "presence_key ?p \<noteq> ?s"
        by (auto simp: presence_key_def sender_key_def)
      show ?thesis
      proof (cases "filter_loop fs ?p 0")
        case None
        from "1.prems" len nosnd None
        have run: "presences_loop session (swap_remove ps i) filters i senderFound = (R, b')"
          by (subst (asm) presences_loop.simps) simp
        from "1.IH"(3) [OF len nosnd "1.prems"(2) None run "1.prems"(2)]
        obtain R' where b': "b' = (senderFound \<or> ?s \<in> presence_key ` set (drop i (swap_remove ps i)))"
            and R: "R = take i (swap_remove ps i) @ R'"
            and sub: "mset R' \<subseteq># mset (drop i (swap_remove ps i))"
            and keys: "?K R' = ?F (drop i (swap_remove ps i)) \<inter># mset (map filter_key fs)"
          by auto
        have nf: "presence_key ?p \<notin># mset (map filter_key fs)"
          by (rule filter_loop_not_found [OF None])
        have "?F (drop i ps) = add_mset (presence_key ?p) (?F (drop (Suc i) ps))"
          using key by (simp add: d)
        then have "?F (drop i ps) \<inter># mset (map filter_key fs)
                     = ?F (drop (Suc i) ps) \<inter># mset (map filter_key fs)"
          using nf by (metis inter_add_left1)
        with keys have k2: "?K R' = ?F (drop i ps) \<inter># mset (map filter_key fs)"
          using len by (simp add: mset_drop_swap_remove)
        have "mset (drop (Suc i) ps) \<subseteq># mset (drop i ps)"
          by (simp add: d)
        with sub have s2: "mset R' \<subseteq># mset (drop i ps)"
          using len by (metis mset_drop_swap_remove subset_mset.order_trans)
        have "(?s \<in> presence_key ` set (drop i (swap_remove ps i)))
                = (?s \<in> presence_key ` set (drop i ps))"
          using key len by (auto simp: set_drop_swap_remove d)
        with b' R s2 k2 len show ?thesis
          by (auto simp: take_swap_remove)
      next
        case (Some fs')
        from "1.prems" len nosnd Some
        have run: "presences_loop session ps (Some fs') (Suc i) senderFound = (R, b')"
          by (subst (asm) presences_loop.simps) simp
        from "1.IH"(4) [OF len nosnd "1.prems"(2) Some run refl]
        obtain R' where b': "b' = (senderFound \<or> ?s \<in> presence_key ` set (drop (Suc i) ps))"
            and R: "R = take (Suc i) ps @ R'"
            and sub: "mset R' \<subseteq># mset (drop (Suc i) ps)"
            and keys: "?K R' = ?F (drop (Suc i) ps) \<inter># mset (map filter_key fs')"
          by auto
        note f = filter_loop_found [OF Some]
        have R2: "R = take i ps @ (?p # R')"
          using R len by (simp add: take_Suc_conv_app_nth)
        have s2: "mset (?p # R') \<subseteq># mset (drop i ps)"
          using sub by (simp add: d)
        have "?F (drop i ps) = add_mset (presence_key ?p) (?F (drop (Suc i) ps))"
          using key by (simp add: d)
        then have "?F (drop i ps) \<inter># mset (map filter_key fs)
                     = add_mset (presence_key ?p)
                         (?F (drop (Suc i) ps) \<inter># (mset (map filter_key fs) - {#presence_key ?p#}))"
          using f(1) by (metis inter_add_left2)
        with keys f(2) have k2: "?K (?p # R') = ?F (drop i ps) \<inter># mset (map filter_key fs)"
          by simp
        have "(?s \<in> presence_key ` set (drop (Suc i) ps)) = (?s \<in> presence_key ` set (drop i ps))"
          using key by (auto simp: d)
        with b' R2 s2 k2 show ?thesis
          by blast
      qed
    qed
  qed
qed

lemma presences_loop_unfiltered:
  assumes "presences_loop s ps filters i b = (R, b')" and "filters = None"
  shows "if sender_key s \<in> presence_key ` set (drop i ps)
         then b' \<and> (\<exists>j. i \<le> j \<and> j < length ps \<and> presence_key (ps ! j) = sender_key s
                      \<and> R = swap_remove ps j)
         else R = ps \<and> b' = b"
  using assms
proof (induction s ps filters i b arbitrary: R b' rule: presences_loop.induct)
  case (1 session ps filters i senderFound)
  show ?case
  proof (cases "i < length ps")
    case False
    with "1.prems" have "R = ps" "b' = senderFound"
      by (subst (asm) presences_loop.simps, simp)+
    with False show ?thesis by simp
  next
    case len: True
    let ?p = "ps ! i"
    have d: "drop i ps = ?p # drop (Suc i) ps"
      using len by (simp add: Cons_nth_drop_Suc)
    show ?thesis
    proof (cases "SessionID (ID ?p) = session_ID session \<and> UserID ?p = session_UserID session")
      case True
      then have key: "presence_key ?p = sender_key session"
        by (simp add: presence_key_def sender_key_def)
      from "1.prems" len True have "R = swap_remove ps i" "b'"
        by (subst (asm) presences_loop.simps, simp)+
      moreover have "sender_key session \<in> presence_key ` set (drop i ps)"
        using key d by (metis image_eqI list.set_intros(1))
      ultimately show ?thesis
        using len key by auto
    next
      case False
      then have key: "presence_key ?p \<noteq> sender_key session"
        by (auto simp: presence_key_def sender_key_def)
      from "1.prems" len False
      have run: "presences_loop session ps filters (Suc i) senderFound = (R, b')"
        by (subst (asm) presences_loop.simps) simp
      note IH = "1.IH"(2) [OF len False "1.prems"(2) run "1.prems"(2)]
      have eq: "(sender_key session \<in> presence_key ` set (drop (Suc i) ps))
                  = (sender_key session \<in> presence_key ` set (drop i ps))"
        using key by (auto simp: d)
      show ?thesis
      proof (cases "sender_key session \<in> presence_key ` set (drop i ps)")
        case True
        with IH eq obtain j where "b'" "Suc i \<le> j" "j < length ps"
            "presence_key (ps ! j) = sender_key session" "R = swap_remove ps j"
          by auto
        with True show ?thesis
          by (auto intro!: exI [of _ j])
      next
        case False
        with IH eq show ?thesis by simp
      qed
    qed
  qed
qed

subsection \<open>The examples of the specification on the routing loop\<close>

lemma ex_members:
  "ListByStream (tracker ex_state) \<lparr>Mode = StreamModeMatchRelayed, Subject = 100, Label = []\<rparr>
     = [ex_A, ex_B, ex_C]"
  by (simp add: ListByStream_def ex_state_def ex_A_def ex_B_def ex_C_def ex_B1_def
        ex_relayed_def ex_authoritative_def)

text \<open>
  Lines 250 to 312 on the examples of the specification: members A, B and C and sender A
  without filter, with a filter for B, with a filter for the non-member D; and the
  non-member D as sender with a filter for B.
\<close>

lemma ex_trace: "trace ex_state = []"
  by (simp add: ex_state_def)

lemma ex_loop_no_filter:
  "presences_loop ex_alice [ex_A, ex_B, ex_C] None 0 False = ([ex_C, ex_B], True)"
  by (simp add: presences_loop.simps swap_remove_def ex_A_def ex_alice_def)

lemma ex_loop_filter_B:
  "presences_loop ex_alice [ex_A, ex_B, ex_C] (Some [\<lparr>f_userID = 12, f_sessionID = 2\<rparr>]) 0 False
     = ([ex_B], True)"
  by (simp add: presences_loop.simps filter_loop.simps swap_remove_def
        ex_A_def ex_B_def ex_C_def ex_alice_def)

lemma ex_loop_filter_D:
  "presences_loop ex_alice [ex_A, ex_B, ex_C] (Some [\<lparr>f_userID = 14, f_sessionID = 4\<rparr>]) 0 False
     = ([], True)"
  by (simp add: presences_loop.simps filter_loop.simps swap_remove_def
        ex_A_def ex_B_def ex_C_def ex_alice_def)

lemma ex_loop_non_member:
  "presences_loop ex_dave [ex_A, ex_B, ex_C] (Some [\<lparr>f_userID = 12, f_sessionID = 2\<rparr>]) 0 False
     = ([ex_B], False)"
  by (simp add: presences_loop.simps filter_loop.simps swap_remove_def
        ex_A_def ex_B_def ex_C_def ex_dave_def)

lemma relayed_examples:
  "trace (matchDataSend_relayed ex_uuid ex_alice ex_data 100 None ex_state)
     = [Tracker_ListByStream ex_relayed,
        SendToPresences [ex_C, ex_B] (outgoing_envelope ex_uuid ex_alice ex_data)]"
  "trace (matchDataSend_relayed ex_uuid ex_alice ex_data 100
            (Some [\<lparr>f_userID = 12, f_sessionID = 2\<rparr>]) ex_state)
     = [Tracker_ListByStream ex_relayed,
        SendToPresences [ex_B] (outgoing_envelope ex_uuid ex_alice ex_data)]"
  "trace (matchDataSend_relayed ex_uuid ex_alice ex_data 100
            (Some [\<lparr>f_userID = 14, f_sessionID = 4\<rparr>]) ex_state)
     = [Tracker_ListByStream ex_relayed]"
  "trace (matchDataSend_relayed ex_uuid ex_dave ex_data 100
            (Some [\<lparr>f_userID = 12, f_sessionID = 2\<rparr>]) ex_state)
     = [Tracker_ListByStream ex_relayed]"
  by (simp_all add: matchDataSend_relayed_def Let_def ex_members ex_loop_no_filter
        ex_loop_filter_B ex_loop_filter_D ex_loop_non_member emit_def ex_trace ex_relayed_def)

subsection \<open>The concrete state\<close>

lemma ex_lookups:
  "GetLocalBySessionIDStreamUserID (tracker ex_state) 4 ex_authoritative 14 = None"
  "GetLocalBySessionIDStreamUserID (tracker ex_state) 2 ex_authoritative 12
     = Some \<lparr>Format = 0, Username = ''bob''\<rparr>"
  "GetLocalBySessionIDStreamUserID (tracker ex_state) 4 ex_relayed 14 = None"
  "GetLocalBySessionIDStreamUserID (tracker ex_state) 1 ex_relayed 11
     = Some \<lparr>Format = 0, Username = ''alice''\<rparr>"
  by (simp_all add: GetLocalBySessionIDStreamUserID_def ex_state_def is_local_def
        ex_A_def ex_B_def ex_C_def ex_B1_def ex_relayed_def ex_authoritative_def)

lemma ex_state_fields:
  "p_node ex_state = ''n1''" "r_node ex_state = ''n1''"
  "matches ex_state 1 = Some ex_handler" "trace ex_state = []"
  by (simp_all add: ex_state_def)

lemma ex_authoritative_members:
  "ListByStream (tracker ex_state) ex_authoritative = [ex_B1]"
  by (simp add: ListByStream_def ex_state_def ex_A_def ex_B_def ex_C_def ex_B1_def
        ex_relayed_def ex_authoritative_def)

lemma ex_relayed_empty:
  "ListByStream (tracker ex_registry) \<lparr>Mode = StreamModeMatchRelayed, Subject = 100, Label = []\<rparr> = []"
  by (simp add: ListByStream_def ex_registry_def)

lemma ex_leave_parse:
  "SplitN_colon_2 ''m1:n1'' = [''m1'', ''n1'']" "uuid_FromString ex_uuid ''m1'' = Some 1"
  by (simp_all add: SplitN_colon_2_def ex_uuid_def)

section \<open>Properties of the tracker\<close>

lemma Track_name: "t_name (Track t sid stream uid meta) = t_name t"
  by (simp add: Track_def)

lemma Track_tracked:
  "GetLocalBySessionIDStreamUserID (Track t sid stream uid meta) sid stream uid \<noteq> None"
proof -
  let ?t = "Track t sid stream uid meta"
  have "\<exists>p \<in> set (t_presences ?t). is_local ?t sid stream uid p"
  proof (cases "\<exists>p \<in> set (t_presences t). is_local t sid stream uid p")
    case True
    then show ?thesis by (simp add: Track_def)
  next
    case False
    let ?new = "\<lparr>ID = \<lparr>Node = t_name t, SessionID = sid\<rparr>, Stream = stream,
                  UserID = uid, Meta = meta\<rparr>"
    from False have "?new \<in> set (t_presences ?t)"
      by (simp add: Track_def)
    moreover have "is_local ?t sid stream uid ?new"
      by (simp add: is_local_def Track_name)
    ultimately show ?thesis by blast
  qed
  then show ?thesis
    by (auto simp: GetLocalBySessionIDStreamUserID_def find_None_iff)
qed

lemma GetLocal_StreamExists:
  assumes "GetLocalBySessionIDStreamUserID t sid stream uid = Some m"
  shows "StreamExists t stream"
proof -
  from assms obtain p where "find (is_local t sid stream uid) (t_presences t) = Some p"
    by (auto simp: GetLocalBySessionIDStreamUserID_def)
  then have "p \<in> set (t_presences t)" "Stream p = stream"
    by (auto simp: find_Some_iff is_local_def)
  then show ?thesis
    by (auto simp: StreamExists_def ListByStream_def filter_empty_conv)
qed

section \<open>Properties of the match handlers\<close>

subsection \<open>Match identifiers\<close>

lemma cut_colon_None: "cut_colon s = None \<longleftrightarrow> CHR '':'' \<notin> set s"
  by (induction s) (auto split: option.splits)

lemma cut_colon_append:
  "CHR '':'' \<notin> set a \<Longrightarrow> cut_colon (a @ CHR '':'' # b) = Some (a, b)"
  by (induction a) auto

lemma SplitN_no_colon: "CHR '':'' \<notin> set s \<Longrightarrow> SplitN_colon_2 s = [s]"
  by (simp add: SplitN_colon_2_def cut_colon_None [THEN iffD2])

lemma SplitN_colon: "CHR '':'' \<notin> set a \<Longrightarrow> SplitN_colon_2 (a @ CHR '':'' # b) = [a, b]"
  by (simp add: SplitN_colon_2_def cut_colon_append)

lemma matchLeave_parse:
  "CHR '':'' \<notin> set i \<Longrightarrow>
     matchLeave U session \<lparr>Cid = cid, Message = Envelope_MatchLeave i\<rparr> st
       = Inr (session_Send (bad_input cid ''Invalid match ID'') st)"
  "CHR '':'' \<notin> set a \<Longrightarrow> uuid_FromString U a = None \<Longrightarrow>
     matchLeave U session \<lparr>Cid = cid, Message = Envelope_MatchLeave (a @ CHR '':'' # node)\<rparr> st
       = Inr (session_Send (bad_input cid ''Invalid match ID'') st)"
  "CHR '':'' \<notin> set a \<Longrightarrow> uuid_FromString U a = Some matchID \<Longrightarrow>
     matchLeave U session \<lparr>Cid = cid, Message = Envelope_MatchLeave (a @ CHR '':'' # node)\<rparr> st
       = Inr (session_Send \<lparr>Cid = cid, Message = Envelope_nil\<rparr>
           (tracker_Untrack (session_ID session)
              \<lparr>Mode = (if node \<noteq> [] then StreamModeMatchAuthoritative
                        else StreamModeMatchRelayed),
               Subject = matchID, Label = node\<rparr>
              (session_UserID session) st))"
  by (simp_all add: matchLeave_def SplitN_no_colon SplitN_colon Let_def)

subsection \<open>matchCreate\<close>

text \<open>
  C10: \<open>matchCreate\<close> calls the tracker once, to track the creating session and user on
  the relayed stream of the new identifier, with an empty label, and sends one envelope:
  a match whose identifier is the printed UUID followed by a colon and whose presences
  are the creator alone, who is also its self. The directory of the registry is as
  before, no registry call is in the trace, and the creator is tracked afterwards.
\<close>

theorem matchCreate_relayed:
  "matchCreate U session envelope matchID st =
     st\<lparr>tracker := Track (tracker st) (session_ID session)
                     \<lparr>Mode = StreamModeMatchRelayed, Subject = matchID, Label = []\<rparr>
                     (session_UserID session)
                     \<lparr>Format = session_Format session, Username = session_Username session\<rparr>,
         trace := trace st @
           [Tracker_Track (session_ID session)
              \<lparr>Mode = StreamModeMatchRelayed, Subject = matchID, Label = []\<rparr>
              (session_UserID session)
              \<lparr>Format = session_Format session, Username = session_Username session\<rparr>,
            Send \<lparr>Cid = Cid envelope,
                  Message = Envelope_Match
                    \<lparr>m_MatchId = uuid_String U matchID @ '':'',
                     m_Presences =
                       [\<lparr>sp_UserId = uuid_String U (session_UserID session),
                         sp_SessionId = uuid_String U (session_ID session),
                         sp_Username = session_Username session\<rparr>],
                     m_Self =
                       \<lparr>sp_UserId = uuid_String U (session_UserID session),
                        sp_SessionId = uuid_String U (session_ID session),
                        sp_Username = session_Username session\<rparr>\<rparr>\<rparr>]\<rparr>
   \<and> matches (matchCreate U session envelope matchID st) = matches st
   \<and> GetLocalBySessionIDStreamUserID (tracker (matchCreate U session envelope matchID st))
        (session_ID session) \<lparr>Mode = StreamModeMatchRelayed, Subject = matchID, Label = []\<rparr>
        (session_UserID session) \<noteq> None"
  by (simp add: matchCreate_def Let_def tracker_Track_def session_Send_def emit_def
        Track_tracked del: not_None_eq)

theorem matchCreate_relayed_witness:
  "matches (matchCreate ex_uuid ex_dave \<lparr>Cid = ''c1'', Message = Envelope_MatchCreate\<rparr> 100
      ex_registry) = matches ex_registry
   \<and> GetLocalBySessionIDStreamUserID
        (tracker (matchCreate ex_uuid ex_dave \<lparr>Cid = ''c1'', Message = Envelope_MatchCreate\<rparr>
           100 ex_registry))
        (session_ID ex_dave) \<lparr>Mode = StreamModeMatchRelayed, Subject = 100, Label = []\<rparr>
        (session_UserID ex_dave) \<noteq> None"
  using matchCreate_relayed [of ex_uuid ex_dave "\<lparr>Cid = ''c1'', Message = Envelope_MatchCreate\<rparr>"
      100 ex_registry]
  by blast

subsection \<open>matchJoin on the parsed identifier\<close>

lemma matchJoin_reply_eq:
  "matchJoin_reply U session cid matchIDString stream meta st =
     st\<lparr>trace := trace st @
        [Tracker_ListByStream stream,
         Send \<lparr>Cid = cid,
               Message = Envelope_Match
                 \<lparr>m_MatchId = matchIDString,
                  m_Presences = map (render U) (ListByStream (tracker st) stream),
                  m_Self = \<lparr>sp_UserId = uuid_String U (session_UserID session),
                            sp_SessionId = uuid_String U (session_ID session),
                            sp_Username = Username meta\<rparr>\<rparr>\<rparr>]\<rparr>"
  by (simp add: matchJoin_reply_def Let_def emit_def session_Send_def)

text \<open>
  Lines 102 to 174 with an empty node label: on a stream without presences the only reply
  is the error MATCH_NOT_FOUND; on a stream with a presence a session that was no member
  is tracked without a call to the registry.
\<close>

lemma relayed_join_after_parse:
  fixes matchID :: uuid
  defines "stream \<equiv> \<lparr>Mode = StreamModeMatchRelayed, Subject = matchID, Label = []\<rparr>"
  shows "(ListByStream (tracker st) stream = [] \<longrightarrow>
            matchJoin_stream U session cid matchIDString matchID [] reply pick st =
              st\<lparr>trace := trace st @
                 [Tracker_StreamExists stream,
                  Send \<lparr>Cid = cid,
                        Message = Envelope_Error Error_MATCH_NOT_FOUND ''Match not found''\<rparr>]\<rparr>)
       \<and> (ListByStream (tracker st) stream \<noteq> [] \<longrightarrow>
            matchJoin_stream U session cid matchIDString matchID [] reply pick st =
              (case GetLocalBySessionIDStreamUserID (tracker st)
                      (session_ID session) stream (session_UserID session) of
                 Some m \<Rightarrow>
                   matchJoin_reply U session cid matchIDString stream m
                     (st\<lparr>trace := trace st @
                        [Tracker_StreamExists stream,
                         Tracker_GetLocalBySessionIDStreamUserID
                           (session_ID session) stream (session_UserID session)]\<rparr>)
               | None \<Rightarrow>
                   matchJoin_reply U session cid matchIDString stream
                     \<lparr>Format = session_Format session, Username = session_Username session\<rparr>
                     (tracker_Track (session_ID session) stream (session_UserID session)
                        \<lparr>Format = session_Format session, Username = session_Username session\<rparr>
                        (st\<lparr>trace := trace st @
                           [Tracker_StreamExists stream,
                            Tracker_GetLocalBySessionIDStreamUserID
                              (session_ID session) stream (session_UserID session)]\<rparr>)))
            \<and> GetLocalBySessionIDStreamUserID
                 (tracker (matchJoin_stream U session cid matchIDString matchID [] reply pick st))
                 (session_ID session) stream (session_UserID session) \<noteq> None
            \<and> matches (matchJoin_stream U session cid matchIDString matchID [] reply pick st)
                = matches st)"
  by (auto simp: stream_def matchJoin_stream_def Let_def StreamExists_def emit_def session_Send_def
        matchJoin_reply_eq tracker_Track_def Track_tracked simp del: not_None_eq
        split: option.splits)

text \<open>
  Lines 102 to 174 for a session and user that the tracker already has on the stream:
  the lookups and one envelope, with no call to the registry and nothing tracked.
\<close>

lemma join_of_member_after_parse:
  assumes stream: "stream = \<lparr>Mode = (if node \<noteq> [] then StreamModeMatchAuthoritative
                                      else StreamModeMatchRelayed),
                             Subject = matchID, Label = node\<rparr>"
    and member: "GetLocalBySessionIDStreamUserID (tracker st)
                   (session_ID session) stream (session_UserID session) = Some m"
  shows "matchJoin_stream U session cid matchIDString matchID node reply pick st =
     st\<lparr>trace := trace st @
        (if node = [] then [Tracker_StreamExists stream] else []) @
        [Tracker_GetLocalBySessionIDStreamUserID (session_ID session) stream
           (session_UserID session),
         Tracker_ListByStream stream,
         Send \<lparr>Cid = cid,
               Message = Envelope_Match
                 \<lparr>m_MatchId = matchIDString,
                  m_Presences = map (render U) (ListByStream (tracker st) stream),
                  m_Self = \<lparr>sp_UserId = uuid_String U (session_UserID session),
                            sp_SessionId = uuid_String U (session_ID session),
                            sp_Username = Username m\<rparr>\<rparr>\<rparr>]\<rparr>"
proof -
  have ex: "StreamExists (tracker st) stream"
    using member by (rule GetLocal_StreamExists)
  show ?thesis
  proof (cases "node = []")
    case True
    with ex member stream show ?thesis
      by (simp add: matchJoin_stream_def Let_def emit_def matchJoin_reply_eq)
  next
    case False
    with member stream show ?thesis
      by (simp add: matchJoin_stream_def Let_def emit_def matchJoin_reply_eq)
  qed
qed

subsection \<open>matchDataSend on the parsed identifier\<close>

lemma parse_filter_entries_bad:
  "x \<in> set xs \<Longrightarrow>
   uuid_FromString U (sp_UserId x) = None \<or> uuid_FromString U (sp_SessionId x) = None \<Longrightarrow>
   parse_filter_entries U xs = None"
  by (induction xs) (auto split: option.splits)

lemma parse_filter_entries_length:
  "parse_filter_entries U xs = Some fs \<Longrightarrow> length fs = length xs"
  by (induction xs arbitrary: fs) (auto split: option.splits)

lemma parse_filters_nil: "parse_filters U xs = Some None \<longleftrightarrow> xs = []"
  by (auto simp: parse_filters_def split: option.splits)

lemma parse_filters_nonempty: "parse_filters U xs = Some (Some fs) \<Longrightarrow> fs \<noteq> []"
  by (auto simp: parse_filters_def dest: parse_filter_entries_length split: option.splits if_splits)

text \<open>
  Lines 222 to 248 with an empty node label: a list of presences with an entry that does
  not parse makes the code return the state it was given.
\<close>

lemma bad_filter_after_parse:
  assumes "x \<in> set (mds_Presences d)"
    and "uuid_FromString U (sp_UserId x) = None \<or> uuid_FromString U (sp_SessionId x) = None"
  shows "matchDataSend_route U session (Some d) matchID [] st = Inr st"
proof -
  from assms(1) have "mds_Presences d \<noteq> []" by auto
  moreover have "parse_filter_entries U (mds_Presences d) = None"
    using assms by (rule parse_filter_entries_bad)
  ultimately show ?thesis
    by (simp add: matchDataSend_route_def parse_filters_def)
qed

subsection \<open>The handlers on the envelopes they receive\<close>

text \<open>
  An envelope holds one message. \<open>matchJoin\<close> and \<open>matchDataSend\<close> read the identifier
  through \<open>envelope.GetMatchLeave()\<close>: whatever the envelope, \<open>matchJoin\<close> returns only
  after a BAD_INPUT reply, and \<open>matchDataSend\<close> returns only with the state it was given
  or after one local lookup. Neither gets as far as the code after the parse with the
  message it is meant for.
\<close>

lemma matchJoin_only_bad_input:
  assumes "matchJoin U session envelope reply pick st = Inr st'"
  shows "\<exists>msg. st' = session_Send (bad_input (Cid envelope) msg) st"
  using assms
  by (cases "Message envelope")
     (auto simp: matchJoin_def split: MatchJoin_Id.splits)

lemma matchDataSend_never_routes:
  assumes "matchDataSend U session envelope st = Inr st'"
  shows "st' = st
       \<or> (\<exists>stream. st' = emit (Tracker_GetLocalBySessionIDStreamUserID
               (session_ID session) stream (session_UserID session)) st)"
  using assms
  by (cases "Message envelope")
     (auto simp: matchDataSend_def matchDataSend_route_def Let_def
           split: if_splits option.splits)

text \<open>
  C1: on the specification's example of a relayed data-send (members A, B and C of the
  relayed match 100, sender A, no filter, identifier \<open>m100:\<close>, which is well-formed) the
  recipients should be B and C. The handler panics at the identifier parse instead: the
  envelope is a data-send, \<open>GetMatchLeave()\<close> is nil, and nobody receives the message.
\<close>

theorem relayed_data_send_panics:
  "SplitN_colon_2 ''m100:'' = [''m100'', []]
   \<and> uuid_FromString ex_uuid ''m100'' = Some 100
   \<and> mds_MatchId ex_data = ''m100:''
   \<and> ListByStream (tracker ex_state) ex_relayed = [ex_A, ex_B, ex_C]
   \<and> presence_key ex_A = sender_key ex_alice
   \<and> matchDataSend ex_uuid ex_alice ex_send ex_state = Inl nil_pointer_dereference"
  by (simp add: SplitN_colon_2_def ex_uuid_def ex_data_def
        ex_members [folded ex_relayed_def] presence_key_def sender_key_def ex_A_def ex_alice_def
        matchDataSend_def ex_send_def)

text \<open>
  C6: a join by the identifier \<open>m100:\<close> of a relayed match, first on a stream without
  presences, where the reply should be MATCH_NOT_FOUND, then on the stream with the members
  A, B and C, where the joiner should be accepted. In both cases the handler panics at
  the identifier parse: there is no reply and nobody is tracked.
\<close>

theorem relayed_join_panics:
  "SplitN_colon_2 ''m100:'' = [''m100'', []]
   \<and> uuid_FromString ex_uuid ''m100'' = Some 100
   \<and> ListByStream (tracker ex_registry) ex_relayed = []
   \<and> matchJoin ex_uuid ex_dave ex_join_relayed None True ex_registry
       = Inl nil_pointer_dereference
   \<and> ListByStream (tracker ex_state) ex_relayed = [ex_A, ex_B, ex_C]
   \<and> matchJoin ex_uuid ex_dave ex_join_relayed None True ex_state
       = Inl nil_pointer_dereference"
  by (simp add: SplitN_colon_2_def ex_uuid_def ex_relayed_empty [folded ex_relayed_def]
        ex_members [folded ex_relayed_def] matchJoin_def ex_join_relayed_def)

text \<open>
  C7: a join repeated by a member: Bob, whom the tracker has on the authoritative match 1
  of node \<open>n1\<close>, and Alice, whom it has on the relayed match 100. Each should get the match
  with its presences as reply; the handler panics at the identifier parse and sends
  nothing.
\<close>

theorem member_join_panics:
  "GetLocalBySessionIDStreamUserID (tracker ex_state) (session_ID ex_bob) ex_authoritative
       (session_UserID ex_bob) = Some \<lparr>Format = 0, Username = ''bob''\<rparr>
   \<and> matchJoin ex_uuid ex_bob ex_join_authoritative (Some (5, True)) True ex_state
       = Inl nil_pointer_dereference
   \<and> GetLocalBySessionIDStreamUserID (tracker ex_state) (session_ID ex_alice) ex_relayed
       (session_UserID ex_alice) = Some \<lparr>Format = 0, Username = ''alice''\<rparr>
   \<and> matchJoin ex_uuid ex_alice ex_join_relayed None True ex_state
       = Inl nil_pointer_dereference"
  by (simp add: ex_lookups ex_bob_def ex_alice_def matchJoin_def ex_join_relayed_def
        ex_join_authoritative_def)

text \<open>
  C9: a relayed data-send whose list of presences has an entry with a session identifier
  that does not parse. The message should be dropped and the handler return; the handler
  panics at the identifier parse, before it looks at the list.
\<close>

theorem bad_filter_panics:
  "\<lparr>sp_UserId = ''u13'', sp_SessionId = ''zz'', sp_Username = ''carol''\<rparr>
      \<in> set (mds_Presences ex_bad_data)
   \<and> uuid_FromString ex_uuid ''zz'' = None
   \<and> mds_MatchId ex_bad_data = ''m100:''
   \<and> matchDataSend ex_uuid ex_alice ex_bad_send ex_state = Inl nil_pointer_dereference"
  by (simp add: ex_bad_data_def ex_uuid_def matchDataSend_def ex_bad_send_def)

subsection \<open>Leave on the authoritative path\<close>

text \<open>
  C4, as the claim states it, fails on a leave. On the authoritative match 1 of node
  \<open>n1\<close> Dave is not a member, and his leave is not dropped: the tracker is called to
  untrack and the acknowledgement is sent. Bob is a member, and his leave is not passed
  to the registry: the same two events, and the mailbox of the actor stays empty, where
  the registry's \<open>Leave\<close> would have put a message.
\<close>

theorem authoritative_leave_counterexample:
  "GetLocalBySessionIDStreamUserID (tracker ex_state) (session_ID ex_dave) ex_authoritative
       (session_UserID ex_dave) = None
   \<and> map_sum id trace (matchLeave ex_uuid ex_dave ex_leave ex_state)
       = Inr [Tracker_Untrack 4 ex_authoritative 14,
              Send \<lparr>Cid = ''c1'', Message = Envelope_nil\<rparr>]
   \<and> GetLocalBySessionIDStreamUserID (tracker ex_state) (session_ID ex_bob) ex_authoritative
       (session_UserID ex_bob) \<noteq> None
   \<and> map_sum id trace (matchLeave ex_uuid ex_bob ex_leave ex_state)
       = Inr [Tracker_Untrack 2 ex_authoritative 12,
              Send \<lparr>Cid = ''c1'', Message = Envelope_nil\<rparr>]
   \<and> map_sum id (mailbox_of 1) (matchLeave ex_uuid ex_bob ex_leave ex_state) = Inr (Some [])
   \<and> mailbox_of 1 (Leave 1 ''n1'' [ex_B1] ex_state) = Some [LeaveCall [ex_B1]]"
proof (intro conjI)
  show "GetLocalBySessionIDStreamUserID (tracker ex_state) (session_ID ex_dave) ex_authoritative
       (session_UserID ex_dave) = None"
    by (simp add: ex_lookups ex_dave_def)
  show "map_sum id trace (matchLeave ex_uuid ex_dave ex_leave ex_state)
       = Inr [Tracker_Untrack 4 ex_authoritative 14,
              Send \<lparr>Cid = ''c1'', Message = Envelope_nil\<rparr>]"
    by (simp add: matchLeave_def ex_leave_def ex_leave_parse Let_def tracker_Untrack_def
          session_Send_def emit_def ex_trace ex_dave_def ex_authoritative_def)
  show "GetLocalBySessionIDStreamUserID (tracker ex_state) (session_ID ex_bob) ex_authoritative
       (session_UserID ex_bob) \<noteq> None"
    by (simp add: ex_lookups ex_bob_def)
  show "map_sum id trace (matchLeave ex_uuid ex_bob ex_leave ex_state)
       = Inr [Tracker_Untrack 2 ex_authoritative 12,
              Send \<lparr>Cid = ''c1'', Message = Envelope_nil\<rparr>]"
    by (simp add: matchLeave_def ex_leave_def ex_leave_parse Let_def tracker_Untrack_def
          session_Send_def emit_def ex_trace ex_bob_def ex_authoritative_def)
  show "map_sum id (mailbox_of 1) (matchLeave ex_uuid ex_bob ex_leave ex_state) = Inr (Some [])"
    by (simp add: matchLeave_def ex_leave_def ex_leave_parse Let_def tracker_Untrack_def
          session_Send_def emit_def mailbox_of_def ex_state_fields ex_handler_def)
  show "mailbox_of 1 (Leave 1 ''n1'' [ex_B1] ex_state) = Some [LeaveCall [ex_B1]]"
    by (simp add: Leave_def Let_def emit_def ex_state_fields QueueCall_def enqueue_def
          ex_handler_def mailbox_of_def)
qed

text \<open>
  C4, amended to what the leave shows: on the authoritative path (a node label that is
  not empty, after a well-formed identifier) a leave makes no membership lookup and no
  call to the registry, whether the sender is a member or not. It calls the tracker to
  untrack the session and user from the stream of the match and sends the empty
  acknowledgement; the directory of the registry and its mailboxes are as before.
\<close>

theorem authoritative_leave:
  assumes "node \<noteq> []" and "CHR '':'' \<notin> set a" and "uuid_FromString U a = Some matchID"
  shows "matchLeave U session
             \<lparr>Cid = cid, Message = Envelope_MatchLeave (a @ CHR '':'' # node)\<rparr> st =
           Inr (st\<lparr>tracker := Untrack (tracker st) (session_ID session)
                      \<lparr>Mode = StreamModeMatchAuthoritative, Subject = matchID, Label = node\<rparr>
                      (session_UserID session),
                   trace := trace st @
                     [Tracker_Untrack (session_ID session)
                        \<lparr>Mode = StreamModeMatchAuthoritative, Subject = matchID, Label = node\<rparr>
                        (session_UserID session),
                      Send \<lparr>Cid = cid, Message = Envelope_nil\<rparr>]\<rparr>)"
  using assms
  by (simp add: matchLeave_parse tracker_Untrack_def session_Send_def emit_def)

theorem authoritative_leave_witness:
  "''n1'' \<noteq> [] \<and> CHR '':'' \<notin> set ''m1'' \<and> uuid_FromString ex_uuid ''m1'' = Some 1
   \<and> matchLeave ex_uuid ex_bob
         \<lparr>Cid = ''c1'', Message = Envelope_MatchLeave (''m1'' @ CHR '':'' # ''n1'')\<rparr> ex_state =
       Inr (ex_state\<lparr>tracker := Untrack (tracker ex_state) (session_ID ex_bob)
                  \<lparr>Mode = StreamModeMatchAuthoritative, Subject = 1, Label = ''n1''\<rparr>
                  (session_UserID ex_bob),
               trace := trace ex_state @
                 [Tracker_Untrack (session_ID ex_bob)
                    \<lparr>Mode = StreamModeMatchAuthoritative, Subject = 1, Label = ''n1''\<rparr>
                    (session_UserID ex_bob),
                  Send \<lparr>Cid = ''c1'', Message = Envelope_nil\<rparr>]\<rparr>)"
proof -
  have n: "''n1'' \<noteq> []"
    by simp
  have c: "CHR '':'' \<notin> set ''m1''"
    by simp
  have u: "uuid_FromString ex_uuid ''m1'' = Some 1"
    by (simp add: ex_uuid_def)
  from n c u authoritative_leave [OF n c u, of ex_bob "''c1''" ex_state]
  show ?thesis by blast
qed

subsection \<open>The identifier that the handlers parse\<close>

text \<open>
  C3: \<open>matchLeave\<close> parses the identifier of its own message. \<open>matchJoin\<close> and
  \<open>matchDataSend\<close> split \<open>envelope.GetMatchLeave().MatchId\<close> instead of the identifier of
  the join or data-send they were given; for an envelope that carries a join by match
  identifier, or a data-send, \<open>GetMatchLeave()\<close> is nil and the handler panics: no
  BAD_INPUT reply for a malformed identifier, and nothing done for a well-formed one.
\<close>

theorem match_identifier_of_other_message:
  "matchJoin U session \<lparr>Cid = cid, Message = Envelope_MatchJoin (MatchJoin_MatchId i)\<rparr>
       reply pick st = Inl nil_pointer_dereference
   \<and> matchDataSend U session \<lparr>Cid = cid, Message = Envelope_MatchDataSend d\<rparr> st
       = Inl nil_pointer_dereference"
  by (simp add: matchJoin_def matchDataSend_def)

end
